theory Spec2Isabelle
  imports Complex_Main
begin

section \<open>Shared JavaScript vocabulary\<close>

text \<open>
  A JavaScript number is an IEEE 754 binary64 value; the finite ones are modelled by the
  real numbers they denote. A product or a quotient is the exact result rounded to the
  nearest binary64 value, a tie going to the even significand: \<open>fl\<close>. The binade of a
  positive \<open>a\<close> is found by stepping from \<open>1\<close> up to \<open>2^1023\<close> or down to \<open>2^-1022\<close>,
  where the subnormal numbers begin; the spacing of the values in a binade of exponent
  \<open>e\<close> is \<open>2^(e - 52)\<close>. Results beyond the largest finite value, where the code has
  \<open>Infinity\<close>, are outside the model.
\<close>

fun exponent_up :: "nat \<Rightarrow> int \<Rightarrow> real \<Rightarrow> int" where
  "exponent_up 0 e a = e"
| "exponent_up (Suc n) e a = (if a < 2 powi (e + 1) then e else exponent_up n (e + 1) a)"

fun exponent_down :: "nat \<Rightarrow> int \<Rightarrow> real \<Rightarrow> int" where
  "exponent_down 0 e a = e"
| "exponent_down (Suc n) e a = (if 2 powi e \<le> a then e else exponent_down n (e - 1) a)"

definition binary64_exponent :: "real \<Rightarrow> int" where
  "binary64_exponent a =
     (if 1 \<le> a then exponent_up 1023 0 a else exponent_down 1021 (- 1) a)"

definition round_half_even :: "real \<Rightarrow> int" where
  "round_half_even v =
     (let f = \<lfloor>v\<rfloor>; r = v - of_int f
      in if r < 1 / 2 then f else if 1 / 2 < r then f + 1 else if even f then f else f + 1)"

definition fl :: "real \<Rightarrow> real" where
  "fl v = (let q = 2 powi (binary64_exponent \<bar>v\<bar> - 52)
           in of_int (round_half_even (v / q)) * q)"

text \<open>
  \<open>Math.round\<close> gives the nearest integer, a tie going towards plus infinity; its
  result is exact. \<open>round_hundredths\<close> is the expression
  \<^verbatim>\<open>Math.round(v * 100) / 100\<close> of Evaluate.tsx (lines 60 and 107): the product is
  rounded to a binary64 value, and so is the quotient.
\<close>

definition Math_round :: "real \<Rightarrow> real" where
  "Math_round v = of_int \<lfloor>v + 1 / 2\<rfloor>"

definition round_hundredths :: "real \<Rightarrow> real" where
  "round_hundredths v = fl (Math_round (fl (v * 100)) / 100)"

text \<open>\<open>Array.prototype.shift\<close>: drops the first element; an empty array stays empty.\<close>

fun shift :: "'a list \<Rightarrow> 'a list" where
  "shift [] = []"
| "shift (first # rest) = rest"

text \<open>
  Every page computes
  \<^verbatim>\<open>typeof props.tabIndex === 'number' && props.tabIndex < 0\<close>;
  an absent \<open>tabIndex\<close> (\<open>undefined\<close>) is \<open>None\<close>.
\<close>

definition pageDisabled :: "int option \<Rightarrow> bool" where
  "pageDisabled tabIndex = (case tabIndex of None \<Rightarrow> False | Some t \<Rightarrow> t < 0)"

section \<open>App.tsx: the error queue and the panic flag\<close>

record ErrorInfo =
  title :: string
  message :: string

datatype ErrorAction = ErrorAdd ErrorInfo | ErrorRemove

text \<open>The reducer of \<open>allErrorInfo\<close> (App.tsx, lines 51-65); its initial state is \<open>[]\<close>.\<close>

fun modifyErrorInfo :: "ErrorInfo list \<Rightarrow> ErrorAction \<Rightarrow> ErrorInfo list" where
  "modifyErrorInfo state (ErrorAdd v) = (if length state \<ge> 10 then state else state @ [v])"
| "modifyErrorInfo state ErrorRemove = shift state"

text \<open>
  The queue after a sequence of actions dispatched on the initial state, and after a
  sequence of \<open>'add'\<close> actions only.
\<close>

definition run_error_actions :: "ErrorAction list \<Rightarrow> ErrorInfo list" where
  "run_error_actions actions = foldl modifyErrorInfo [] actions"

definition run_errors :: "ErrorInfo list \<Rightarrow> ErrorInfo list" where
  "run_errors vs = foldl (\<lambda>state v. modifyErrorInfo state (ErrorAdd v)) [] vs"

record App =
  pageIndex :: int
  isPanic :: bool
  allErrorInfo :: "ErrorInfo list"

definition App_init :: App where
  "App_init = \<lparr>pageIndex = 0, isPanic = False, allErrorInfo = []\<rparr>"

text \<open>The three listeners registered by the first effect (lines 77-87).\<close>

definition onPageMove :: "App \<Rightarrow> int \<Rightarrow> App" where
  "onPageMove app payload = app\<lparr>pageIndex := payload\<rparr>"

definition onDialogError :: "App \<Rightarrow> ErrorInfo \<Rightarrow> App" where
  "onDialogError app payload =
     app\<lparr>allErrorInfo := modifyErrorInfo (allErrorInfo app) (ErrorAdd payload)\<rparr>"

definition onCorePanic :: "App \<Rightarrow> App" where
  "onCorePanic app = app\<lparr>isPanic := True\<rparr>"

text \<open>
  \<open>handleCloseDialog\<close> (lines 128-133) dispatches the removal and then tests
  \<open>isPanic\<close> and \<open>allErrorInfo.length\<close> of the render it was created in. The reducer
  runs with the next render, so the length tested is that of the queue before the
  removal. The second component says whether \<open>currentWindow.close()\<close> was called.
\<close>

definition handleCloseDialog :: "App \<Rightarrow> App \<times> bool" where
  "handleCloseDialog app =
     (app\<lparr>allErrorInfo := modifyErrorInfo (allErrorInfo app) ErrorRemove\<rparr>,
      isPanic app \<and> length (allErrorInfo app) \<le> 1)"

section \<open>Train.tsx: the confidence graph\<close>

record Point =
  x :: real
  y :: real

datatype ConfidenceGraphAction = GraphSet "Point list" | GraphAdd Point | GraphClear

definition origin :: Point where
  "origin = \<lparr>x = 0, y = 0\<rparr>"

text \<open>
  The reducer of \<open>confidencePoints\<close> (Train.tsx, lines 50-65). \<open>state[0]\<close> is only read
  after \<open>state.length === 1\<close> held, so the index is in range. The case \<open>'set'\<close> has no
  \<open>return\<close> for an empty array: control falls through into the body of \<open>'clear'\<close>,
  which is the second branch below.
\<close>

fun modifyConfidenceGraph :: "Point list \<Rightarrow> ConfidenceGraphAction \<Rightarrow> Point list" where
  "modifyConfidenceGraph state (GraphAdd v) =
     (if length state = 1 \<and> x (state ! 0) = 0 \<and> x v = 0 then [v] else state @ [v])"
| "modifyConfidenceGraph state (GraphSet v) =
     (if length v > 0 then v else [origin])"
| "modifyConfidenceGraph state GraphClear = [origin]"

definition confidencePoints_init :: "Point list" where
  "confidencePoints_init = [origin]"

text \<open>
  The callback of \<open>latestConfidence\<close> (lines 92-95) reads
  \<^verbatim>\<open>confidencePoints[confidencePoints.length - 1]\<close> of the render it runs in.
  \<open>array_at\<close> is the array read: \<open>undefined\<close>, here \<open>None\<close>, out of range.
\<close>

definition array_at :: "'a list \<Rightarrow> int \<Rightarrow> 'a option" where
  "array_at xs i = (if 0 \<le> i \<and> i < int (length xs) then Some (xs ! nat i) else None)"

text \<open>The states the reducer reaches from its initial state.\<close>

definition run_graph :: "ConfidenceGraphAction list \<Rightarrow> Point list" where
  "run_graph actions = foldl modifyConfidenceGraph confidencePoints_init actions"

section \<open>Preprocess.tsx: the data model\<close>

datatype ColumnType = TString | TNumber | TDateTime | TBoolean

text \<open>
  The fields \<open>type\<close> of \<open>ColumnInfo\<close> and of \<open>RowSelection\<close> are \<open>col_type\<close> and
  \<open>sel_type\<close> here; the fields of the payloads \<open>SheetInfo\<close>, \<open>DataInfo\<close> and
  \<open>PreprocessConfig\<close> carry a prefix where the component has a state variable of the
  same name.
\<close>

record ColumnInfo =
  field :: string
  headerName :: string
  col_type :: ColumnType

text \<open>
  \<open>RowInfo\<close> is \<open>Record<string, string | number | Date | boolean>\<close>: the keys in their
  order, each once. A \<open>Date\<close> is kept as the string it was built from.
\<close>

datatype Cell = CellString string | CellNumber real | CellDate string | CellBoolean bool

type_synonym RowInfo = "(string \<times> Cell) list"

datatype BatchPeriode = Minutely | Hourly | Daily | Weekly | Monthly | Yearly

datatype SelectionType = Include | Exclude

record RowSelection =
  sel_type :: SelectionType
  ids :: "int list"

record SheetInfo =
  sheet_tabName :: "string option"
  sheet_columns :: "ColumnInfo list"
  sheet_rows :: "RowInfo list"
  sheet_allowedBatchPeriodes :: "BatchPeriode list"
  selectedDatetimeColumn :: string
  selectedPredictableColumn :: string
  sheet_selectedBatchPeriode :: BatchPeriode
  sheet_rowSelection :: RowSelection

record DataInfo =
  info_name :: string
  info_tabs :: "string list option"
  sheetInfo :: SheetInfo

record PreprocessConfig =
  tabName :: "string option"
  datetimeColumn :: string
  predictableColumn :: string
  batchPeriode :: BatchPeriode
  config_rowSelection :: RowSelection

text \<open>
  What is in flight: the one-second timeout of the activation effect and the two
  requests whose continuation tests an \<open>isCanceled\<close> variable. The number is the index
  of that variable in \<open>canceled\<close>: every run of the effect body and every run of
  \<open>handleSelectTab\<close> allocates a fresh one.
\<close>

datatype Request = Timeout nat | Get_data_info nat | Select_sheet nat string

record Preprocess =
  tabIndex :: "int option"
  isLoading :: bool
  isSubmitting :: bool
  name :: string
  tabs :: "string list"
  columns :: "ColumnInfo list"
  rows :: "RowInfo list"
  allowedBatchPeriodes :: "BatchPeriode list"
  selectedTab :: string
  selectedDatetime :: string
  selectedPredictable :: string
  selectedBatchPeriode :: "BatchPeriode option"
  rowSelection :: RowSelection
  canceled :: "bool list"
  effect_cleanup :: "nat option"
  pending :: "Request list"

text \<open>
  \<open>selectedBatchPeriode\<close> has type \<open>BatchPeriode | ''\<close>: \<open>None\<close> is the empty string.
  \<open>effect_cleanup\<close> is the cleanup the last run of the activation effect returned (the
  index of the variable it flips), \<open>None\<close> when that run returned early.
\<close>

definition Preprocess_initial :: "int option \<Rightarrow> Preprocess" where
  "Preprocess_initial t =
     \<lparr>tabIndex = t, isLoading = False, isSubmitting = False, name = [], tabs = [],
      columns = [], rows = [], allowedBatchPeriodes = [], selectedTab = [],
      selectedDatetime = [], selectedPredictable = [], selectedBatchPeriode = None,
      rowSelection = \<lparr>sel_type = Exclude, ids = []\<rparr>,
      canceled = [], effect_cleanup = None, pending = []\<rparr>"

definition disabled :: "Preprocess \<Rightarrow> bool" where
  "disabled st = (pageDisabled (tabIndex st) \<or> isLoading st \<or> isSubmitting st)"

subsection \<open>allowSubmit\<close>

text \<open>
  \<open>allowSubmit\<close> (lines 116-132) is a chain of \<open>&&\<close> over a boolean, three strings and
  a boolean: its value is the first falsy operand, or the last operand. The button reads
  it as \<open>disabled={!allowSubmit}\<close>, that is, through its truthiness.
\<close>

datatype JsValue = JsBoolean bool | JsString string

fun truthy :: "JsValue \<Rightarrow> bool" where
  "truthy (JsBoolean b) = b"
| "truthy (JsString s) = (s \<noteq> [])"

definition js_and :: "JsValue \<Rightarrow> JsValue \<Rightarrow> JsValue" where
  "js_and a b = (if truthy a then b else a)"

fun BatchPeriode_string :: "BatchPeriode option \<Rightarrow> string" where
  "BatchPeriode_string None = []"
| "BatchPeriode_string (Some Minutely) = ''Minutely''"
| "BatchPeriode_string (Some Hourly) = ''Hourly''"
| "BatchPeriode_string (Some Daily) = ''Daily''"
| "BatchPeriode_string (Some Weekly) = ''Weekly''"
| "BatchPeriode_string (Some Monthly) = ''Monthly''"
| "BatchPeriode_string (Some Yearly) = ''Yearly''"

definition allowSubmit :: "Preprocess \<Rightarrow> JsValue" where
  "allowSubmit st =
     js_and (js_and (js_and (js_and
       (JsBoolean (\<not> disabled st))
       (JsString (selectedDatetime st)))
       (JsString (selectedPredictable st)))
       (JsString (BatchPeriode_string (selectedBatchPeriode st))))
       (JsBoolean
          ((sel_type (rowSelection st) = Include \<and> length (ids (rowSelection st)) \<noteq> 0) \<or>
           (sel_type (rowSelection st) = Exclude \<and>
            length (ids (rowSelection st)) \<noteq> length (rows st))))"

subsection \<open>changeSheetInfo\<close>

text \<open>
  \<open>changeSheetInfo\<close> (lines 253-279). In every row, a string under a key that is the
  field of a \<open>dateTime\<close> column becomes a \<open>Date\<close>; the spread keeps the keys in place.
\<close>

definition datetimeFields :: "ColumnInfo list \<Rightarrow> string list" where
  "datetimeFields cols = map field (filter (\<lambda>eachCol. col_type eachCol = TDateTime) cols)"

fun override_cell :: "Cell \<Rightarrow> Cell" where
  "override_cell (CellString s) = CellDate s"
| "override_cell c = c"

definition convert_row :: "ColumnInfo list \<Rightarrow> RowInfo \<Rightarrow> RowInfo" where
  "convert_row cols each =
     map (\<lambda>kv. if fst kv \<in> set (datetimeFields cols)
               then (fst kv, override_cell (snd kv)) else kv) each"

definition changeSheetInfo :: "Preprocess \<Rightarrow> SheetInfo \<Rightarrow> Preprocess" where
  "changeSheetInfo st info =
     st\<lparr>columns := sheet_columns info,
        rows := map (convert_row (sheet_columns info)) (sheet_rows info),
        allowedBatchPeriodes := sheet_allowedBatchPeriodes info,
        selectedTab := (case sheet_tabName info of None \<Rightarrow> [] | Some t \<Rightarrow> t),
        selectedDatetime := selectedDatetimeColumn info,
        selectedPredictable := selectedPredictableColumn info,
        selectedBatchPeriode := Some (sheet_selectedBatchPeriode info),
        rowSelection := sheet_rowSelection info\<rparr>"

subsection \<open>The activation effect and the tab handler\<close>

text \<open>
  The effect of lines 281-322: its body, and the cleanup it returns
  (\<open>isCanceled = true\<close>, and \<open>clearTimeout\<close> of a timeout that has not fired).
\<close>

definition activation_effect :: "Preprocess \<Rightarrow> Preprocess" where
  "activation_effect st =
     (let st1 = st\<lparr>isLoading := True, name := [], tabs := [], columns := [], rows := []\<rparr>
      in if pageDisabled (tabIndex st1) then st1\<lparr>effect_cleanup := None\<rparr>
         else let k = length (canceled st1)
              in st1\<lparr>canceled := canceled st1 @ [False],
                     pending := pending st1 @ [Timeout k],
                     effect_cleanup := Some k\<rparr>)"

definition run_cleanup :: "Preprocess \<Rightarrow> Preprocess" where
  "run_cleanup st =
     (case effect_cleanup st of
        None \<Rightarrow> st
      | Some k \<Rightarrow> st\<lparr>canceled := (canceled st)[k := True],
                      pending := removeAll (Timeout k) (pending st),
                      effect_cleanup := None\<rparr>)"

text \<open>Mounting runs the effect once; a later render runs it again (after the cleanup of
  the run before) only when the dependency \<open>pageDisabled\<close> has changed.\<close>

definition Preprocess_mount :: "int option \<Rightarrow> Preprocess" where
  "Preprocess_mount t = activation_effect (Preprocess_initial t)"

definition render :: "Preprocess \<Rightarrow> int option \<Rightarrow> Preprocess" where
  "render st t =
     (if pageDisabled t = pageDisabled (tabIndex st) then st\<lparr>tabIndex := t\<rparr>
      else activation_effect (run_cleanup (st\<lparr>tabIndex := t\<rparr>)))"

text \<open>
  The continuation of the timeout (lines 295-305) and that of \<open>get_data_info\<close>
  (lines 298-304), each for the variable \<open>k\<close> of its closure.
\<close>

definition timeout_fired :: "Preprocess \<Rightarrow> nat \<Rightarrow> Preprocess" where
  "timeout_fired st k =
     (if canceled st ! k then st else st\<lparr>pending := pending st @ [Get_data_info k]\<rparr>)"

definition data_info_resolved :: "Preprocess \<Rightarrow> nat \<Rightarrow> DataInfo \<Rightarrow> Preprocess" where
  "data_info_resolved st k v =
     (if canceled st ! k then st
      else (changeSheetInfo
              (st\<lparr>name := info_name v,
                  tabs := (case info_tabs v of None \<Rightarrow> [] | Some ts \<Rightarrow> ts)\<rparr>)
              (sheetInfo v))\<lparr>isLoading := False\<rparr>)"

text \<open>
  \<open>handleSelectTab\<close> (lines 231-251). It returns a function that would set its
  \<open>isCanceled\<close> and clear the loading flag: the second component is the index of that
  variable, \<open>None\<close> after the early return. \<open>selectTab_cleanup\<close> is the returned function.
\<close>

definition handleSelectTab :: "Preprocess \<Rightarrow> string \<Rightarrow> Preprocess \<times> nat option" where
  "handleSelectTab st v =
     (if disabled st then (st, None)
      else let k = length (canceled st)
           in (st\<lparr>selectedTab := v,
                  canceled := canceled st @ [False],
                  isLoading := True,
                  pending := pending st @ [Select_sheet k v]\<rparr>, Some k))"

definition selectTab_cleanup :: "Preprocess \<Rightarrow> nat \<Rightarrow> Preprocess" where
  "selectTab_cleanup st k = st\<lparr>canceled := (canceled st)[k := True], isLoading := False\<rparr>"

definition select_sheet_resolved :: "Preprocess \<Rightarrow> nat \<Rightarrow> SheetInfo \<Rightarrow> Preprocess" where
  "select_sheet_resolved st k info =
     (if canceled st ! k then st else (changeSheetInfo st info)\<lparr>isLoading := False\<rparr>)"

text \<open>
  What can happen to the mounted page. A timeout or a response is delivered only for
  something in flight, and leaves the list then. \<open>handleSelectTab\<close> is the
  \<open>onChange\<close> of the tab \<open>Select\<close> (line 409), which calls it for its effects: nothing
  receives the function it returns.
\<close>

datatype PreprocessEvent =
    Render "int option"
  | TimeoutFired nat
  | DataInfoResolved nat DataInfo
  | SelectTab string
  | SelectSheetResolved nat string SheetInfo

fun step :: "Preprocess \<Rightarrow> PreprocessEvent \<Rightarrow> Preprocess" where
  "step st (Render t) = render st t"
| "step st (TimeoutFired k) =
     (if Timeout k \<in> set (pending st)
      then timeout_fired (st\<lparr>pending := remove1 (Timeout k) (pending st)\<rparr>) k else st)"
| "step st (DataInfoResolved k v) =
     (if Get_data_info k \<in> set (pending st)
      then data_info_resolved (st\<lparr>pending := remove1 (Get_data_info k) (pending st)\<rparr>) k v
      else st)"
| "step st (SelectTab v) = fst (handleSelectTab st v)"
| "step st (SelectSheetResolved k t info) =
     (if Select_sheet k t \<in> set (pending st)
      then select_sheet_resolved (st\<lparr>pending := remove1 (Select_sheet k t) (pending st)\<rparr>) k info
      else st)"

definition run_preprocess :: "Preprocess \<Rightarrow> PreprocessEvent list \<Rightarrow> Preprocess" where
  "run_preprocess st events = foldl step st events"

subsection \<open>Submitting\<close>

text \<open>
  \<open>handleClickStart\<close> (lines 344-361): the state after the synchronous part and the
  commands invoked by it. \<open>selectedTab || undefined\<close> leaves \<open>tabName\<close> out for the
  empty string.
\<close>

datatype Command = Submit_preprocess_config PreprocessConfig | Start_train

definition handleClickStart :: "Preprocess \<Rightarrow> Preprocess \<times> Command list" where
  "handleClickStart st =
     (case selectedBatchPeriode st of
        None \<Rightarrow> (st, [])
      | Some b \<Rightarrow>
          (st\<lparr>isSubmitting := True\<rparr>,
           [Submit_preprocess_config
              \<lparr>tabName = (if selectedTab st \<noteq> [] then Some (selectedTab st) else None),
               datetimeColumn = selectedDatetime st,
               predictableColumn = selectedPredictable st,
               batchPeriode = b,
               config_rowSelection = rowSelection st\<rparr>]))"

text \<open>
  The promise of \<open>submit_preprocess_config\<close> settles one way or the other. The callback
  of \<open>finally\<close> runs on both and hands the outcome on; the callback of \<open>then\<close> runs on
  fulfilment only.
\<close>

datatype Settled = Fulfilled | Rejected

definition submit_settled :: "Preprocess \<Rightarrow> Settled \<Rightarrow> Preprocess \<times> Command list" where
  "submit_settled st outcome =
     (let st1 = st\<lparr>isSubmitting := False\<rparr>
      in case outcome of Fulfilled \<Rightarrow> (st1, [Start_train]) | Rejected \<Rightarrow> (st1, []))"

section \<open>Evaluate.tsx\<close>

record RawComparisonPoint =
  point_x :: string
  y0 :: real
  y1 :: real

record EvaluationReport =
  confidence :: real
  graph :: "RawComparisonPoint list"
  highPeak :: "RawComparisonPoint option"
  lowPeak :: "RawComparisonPoint option"

text \<open>
  The state variables of the page, its \<open>tabIndex\<close> property, and what the activation
  effect (lines 101-120) has in flight: \<open>listeners\<close> are the handlers registered on
  \<open>App://evaluate/progress\<close> and not yet removed, \<open>evaluation_pending\<close> the
  \<open>get_evaluation\<close> requests without a response, both named by the index in
  \<open>evaluate_canceled\<close> of the \<open>isCanceled\<close> variable of the effect run that made them.
  \<open>evaluate_cleanup\<close> is the cleanup returned by the last run. Registration and removal
  of a listener are taken to be immediate.
\<close>

record Evaluate =
  evaluate_tabIndex :: "int option"
  report :: "EvaluationReport option"
  isSaving :: bool
  predictProgress :: real
  evaluate_canceled :: "bool list"
  evaluate_cleanup :: "nat option"
  listeners :: "nat list"
  evaluation_pending :: "nat list"

definition Evaluate_initial :: "int option \<Rightarrow> Evaluate" where
  "Evaluate_initial t =
     \<lparr>evaluate_tabIndex = t, report = None, isSaving = False, predictProgress = 0,
      evaluate_canceled = [], evaluate_cleanup = None, listeners = [],
      evaluation_pending = []\<rparr>"

definition evaluate_effect :: "Evaluate \<Rightarrow> Evaluate" where
  "evaluate_effect st =
     (let st1 = st\<lparr>report := None, predictProgress := 0\<rparr>
      in if pageDisabled (evaluate_tabIndex st1) then st1\<lparr>evaluate_cleanup := None\<rparr>
         else let k = length (evaluate_canceled st1)
              in st1\<lparr>listeners := listeners st1 @ [k],
                     evaluate_canceled := evaluate_canceled st1 @ [False],
                     evaluation_pending := evaluation_pending st1 @ [k],
                     evaluate_cleanup := Some k\<rparr>)"

definition evaluate_run_cleanup :: "Evaluate \<Rightarrow> Evaluate" where
  "evaluate_run_cleanup st =
     (case evaluate_cleanup st of
        None \<Rightarrow> st
      | Some k \<Rightarrow> st\<lparr>listeners := removeAll k (listeners st),
                      evaluate_canceled := (evaluate_canceled st)[k := True],
                      evaluate_cleanup := None\<rparr>)"

definition Evaluate_mount :: "int option \<Rightarrow> Evaluate" where
  "Evaluate_mount t = evaluate_effect (Evaluate_initial t)"

definition evaluate_render :: "Evaluate \<Rightarrow> int option \<Rightarrow> Evaluate" where
  "evaluate_render st t =
     (if pageDisabled t = pageDisabled (evaluate_tabIndex st) then st\<lparr>evaluate_tabIndex := t\<rparr>
      else evaluate_effect (evaluate_run_cleanup (st\<lparr>evaluate_tabIndex := t\<rparr>)))"

text \<open>The handler of the progress listener (lines 106-108), run once per registered
  listener, and the continuation of \<open>get_evaluation\<close> (lines 111-114).\<close>

definition progress_handler :: "Evaluate \<Rightarrow> real \<Rightarrow> Evaluate" where
  "progress_handler st payload = st\<lparr>predictProgress := round_hundredths payload\<rparr>"

definition evaluation_resolved :: "Evaluate \<Rightarrow> nat \<Rightarrow> EvaluationReport \<Rightarrow> Evaluate" where
  "evaluation_resolved st k v = (if evaluate_canceled st ! k then st else st\<lparr>report := Some v\<rparr>)"

datatype EvaluateEvent =
    EvaluateRender "int option"
  | Progress real
  | EvaluationResolved nat EvaluationReport

fun evaluate_step :: "Evaluate \<Rightarrow> EvaluateEvent \<Rightarrow> Evaluate" where
  "evaluate_step st (EvaluateRender t) = evaluate_render st t"
| "evaluate_step st (Progress payload) =
     foldl (\<lambda>s k. progress_handler s payload) st (listeners st)"
| "evaluate_step st (EvaluationResolved k v) =
     (if k \<in> set (evaluation_pending st)
      then evaluation_resolved (st\<lparr>evaluation_pending := remove1 k (evaluation_pending st)\<rparr>) k v
      else st)"

definition run_evaluate :: "Evaluate \<Rightarrow> EvaluateEvent list \<Rightarrow> Evaluate" where
  "run_evaluate st events = foldl evaluate_step st events"

text \<open>
  What the page renders (lines 98, 133-152 and 154-236): while \<open>isPredicting\<close>, that
  is, while the page is disabled or \<open>report\<close> is \<open>null\<close>, the heading with
  \<open>(predictProgress%)\<close>, or with an ellipsis when \<open>predictProgress\<close> is falsy (zero);
  otherwise the report, with the rounded confidence, the two peaks and the busy flag of
  the buttons.
\<close>

datatype EvaluateView =
    PredictingView "real option"
  | ReadyView real "string option" "string option" bool

definition evaluate_view :: "Evaluate \<Rightarrow> EvaluateView" where
  "evaluate_view st =
     (case report st of
        None \<Rightarrow> PredictingView (if predictProgress st \<noteq> 0 then Some (predictProgress st) else None)
      | Some r \<Rightarrow>
          if pageDisabled (evaluate_tabIndex st)
          then PredictingView (if predictProgress st \<noteq> 0 then Some (predictProgress st) else None)
          else ReadyView (round_hundredths (confidence r))
                 (map_option point_x (highPeak r)) (map_option point_x (lowPeak r))
                 (isSaving st))"

text \<open>
  While the page is enabled the effect's own listener is the only one registered, and
  none is while it is disabled.
\<close>

definition evaluate_inv :: "Evaluate \<Rightarrow> bool" where
  "evaluate_inv st =
     (listeners st = (case evaluate_cleanup st of None \<Rightarrow> [] | Some k \<Rightarrow> [k]) \<and>
      (evaluate_cleanup st = None) = pageDisabled (evaluate_tabIndex st))"

text \<open>
  The specification's reading of the progress display, to compare with
  \<open>progress_handler\<close>: the payload as a percentage, rounded to two decimal places, as a
  number of the specification (no binary64 rounding).
\<close>

definition percentage_two_decimals :: "real \<Rightarrow> real" where
  "percentage_two_decimals p = Math_round ((p * 100) * 100) / 100"

section \<open>Example data\<close>

text \<open>A page that is enabled and idle, with a file of \<open>n\<close> rows and every selector set.\<close>

definition ready_page :: "SelectionType \<Rightarrow> int list \<Rightarrow> nat \<Rightarrow> Preprocess" where
  "ready_page m is n = (Preprocess_initial None)
      \<lparr>rows := replicate n [], selectedDatetime := ''date'', selectedPredictable := ''price'',
       selectedBatchPeriode := Some Daily, rowSelection := \<lparr>sel_type = m, ids = is\<rparr>\<rparr>"

text \<open>A sheet with one numeric column, and a file whose first sheet it is.\<close>

definition example_sheet :: "string \<Rightarrow> string \<Rightarrow> SheetInfo" where
  "example_sheet tab col =
     \<lparr>sheet_tabName = Some tab,
      sheet_columns = [\<lparr>field = col, headerName = col, col_type = TNumber\<rparr>],
      sheet_rows = [[(col, CellNumber 1)]],
      sheet_allowedBatchPeriodes = [Daily],
      selectedDatetimeColumn = [],
      selectedPredictableColumn = col,
      sheet_selectedBatchPeriode = Daily,
      sheet_rowSelection = \<lparr>sel_type = Exclude, ids = []\<rparr>\<rparr>"

definition example_info :: "string \<Rightarrow> string \<Rightarrow> string \<Rightarrow> DataInfo" where
  "example_info file tab col =
     \<lparr>info_name = file, info_tabs = Some [''A'', ''B''], sheetInfo = example_sheet tab col\<rparr>"

definition example_report :: EvaluationReport where
  "example_report = \<lparr>confidence = 87, graph = [], highPeak = None, lowPeak = None\<rparr>"

section \<open>The error queue\<close>

lemma modifyErrorInfo_length: "length q \<le> 10 \<Longrightarrow> length (modifyErrorInfo q a) \<le> 10"
  by (cases a; cases q) auto

lemma push_all_take:
  "length q \<le> 10 \<Longrightarrow>
   foldl (\<lambda>state v. modifyErrorInfo state (ErrorAdd v)) q ns = q @ take (10 - length q) ns"
proof (induction ns arbitrary: q)
  case Nil
  then show ?case by simp
next
  case (Cons n ns)
  show ?case
  proof (cases "length q = 10")
    case True
    have "foldl (\<lambda>state v. modifyErrorInfo state (ErrorAdd v)) q ns = q @ take (10 - length q) ns"
      using Cons.IH [of q] True by simp
    with True show ?thesis by simp
  next
    case False
    with Cons.prems have lt: "length q < 10" by simp
    then have "length (q @ [n]) \<le> 10" by simp
    from Cons.IH [OF this] lt show ?thesis
      by (simp add: take_Cons' Suc_diff_Suc)
  qed
qed

lemma foldl_modifyErrorInfo_length:
  "length q \<le> 10 \<Longrightarrow> length (foldl modifyErrorInfo q actions) \<le> 10"
  by (induction actions arbitrary: q) (simp_all add: modifyErrorInfo_length)

text \<open>
  Claim C2. On a queue of at most 10 notifications (every queue the reducer reaches from
  the empty one is such, last conjunct), pushing leaves the queue as it is when it holds
  10 and appends at the back otherwise, and the result again holds at most 10. Pushing a
  sequence of notifications onto the empty queue keeps its first 10 in push order.
\<close>

theorem notification_queue_push:
  "(length q \<le> 10 \<longrightarrow>
      modifyErrorInfo q (ErrorAdd n) = (if length q = 10 then q else q @ [n]) \<and>
      length (modifyErrorInfo q a) \<le> 10) \<and>
   run_errors ns = take 10 ns \<and>
   length (run_error_actions actions) \<le> 10"
  using push_all_take [of "[]" ns] foldl_modifyErrorInfo_length [of "[]" actions]
  by (simp add: run_errors_def run_error_actions_def modifyErrorInfo_length)

text \<open>
  At concrete queues: a push on 10 notifications is dropped, a push on 9 is appended, and
  11 pushes on the empty queue leave the first 10.
\<close>

theorem notification_queue_push_witness:
  "length (replicate 10 \<lparr>title = ''e'', message = ''old''\<rparr>) \<le> 10 \<and>
   modifyErrorInfo (replicate 10 \<lparr>title = ''e'', message = ''old''\<rparr>)
     (ErrorAdd \<lparr>title = ''e'', message = ''new''\<rparr>)
     = replicate 10 \<lparr>title = ''e'', message = ''old''\<rparr> \<and>
   modifyErrorInfo (replicate 9 \<lparr>title = ''e'', message = ''old''\<rparr>)
     (ErrorAdd \<lparr>title = ''e'', message = ''new''\<rparr>)
     = replicate 9 \<lparr>title = ''e'', message = ''old''\<rparr> @ [\<lparr>title = ''e'', message = ''new''\<rparr>] \<and>
   run_errors (map (\<lambda>i. \<lparr>title = ''e'', message = replicate i CHR ''!''\<rparr>) [0..<11])
     = map (\<lambda>i. \<lparr>title = ''e'', message = replicate i CHR ''!''\<rparr>) [0..<10] \<and>
   length (run_errors (map (\<lambda>i. \<lparr>title = ''e'', message = replicate i CHR ''!''\<rparr>) [0..<11])) = 10"
  using notification_queue_push
          [of "replicate 10 \<lparr>title = ''e'', message = ''old''\<rparr>"
              "\<lparr>title = ''e'', message = ''new''\<rparr>" ErrorRemove
              "map (\<lambda>i. \<lparr>title = ''e'', message = replicate i CHR ''!''\<rparr>) [0..<11]" "[]"]
        notification_queue_push
          [of "replicate 9 \<lparr>title = ''e'', message = ''old''\<rparr>"
              "\<lparr>title = ''e'', message = ''new''\<rparr>" ErrorRemove "[]" "[]"]
  by (simp add: take_map)

text \<open>
  Claim C3. Acknowledging removes the oldest notification and changes nothing else; the
  window is closed exactly when the panic flag is set and the queue held at most one
  notification before the removal. With the panic flag set and two or more queued, the
  queue advances, stays non-empty, and the window is not closed.
\<close>

theorem acknowledge_pops_and_closes:
  "allErrorInfo (fst (handleCloseDialog app)) = drop 1 (allErrorInfo app) \<and>
   isPanic (fst (handleCloseDialog app)) = isPanic app \<and>
   pageIndex (fst (handleCloseDialog app)) = pageIndex app \<and>
   (snd (handleCloseDialog app) \<longleftrightarrow> isPanic app \<and> length (allErrorInfo app) \<le> 1) \<and>
   (isPanic app \<and> length (allErrorInfo app) \<ge> 2 \<longrightarrow>
      \<not> snd (handleCloseDialog app) \<and>
      length (allErrorInfo (fst (handleCloseDialog app))) = length (allErrorInfo app) - 1 \<and>
      allErrorInfo (fst (handleCloseDialog app)) \<noteq> [])"
  by (cases "allErrorInfo app") (auto simp: handleCloseDialog_def)

text \<open>
  The two panic cases: one queued notification closes the window, two leave the second.
\<close>

theorem acknowledge_pops_and_closes_witness:
  "handleCloseDialog \<lparr>pageIndex = 2, isPanic = True,
      allErrorInfo = [\<lparr>title = ''e1'', message = ''m1''\<rparr>]\<rparr>
     = (\<lparr>pageIndex = 2, isPanic = True, allErrorInfo = []\<rparr>, True) \<and>
   handleCloseDialog \<lparr>pageIndex = 2, isPanic = True,
      allErrorInfo = [\<lparr>title = ''e1'', message = ''m1''\<rparr>, \<lparr>title = ''e2'', message = ''m2''\<rparr>]\<rparr>
     = (\<lparr>pageIndex = 2, isPanic = True, allErrorInfo = [\<lparr>title = ''e2'', message = ''m2''\<rparr>]\<rparr>,
        False)"
  using acknowledge_pops_and_closes
          [of "\<lparr>pageIndex = 2, isPanic = True,
                allErrorInfo = [\<lparr>title = ''e1'', message = ''m1''\<rparr>]\<rparr>"]
        acknowledge_pops_and_closes
          [of "\<lparr>pageIndex = 2, isPanic = True,
                allErrorInfo = [\<lparr>title = ''e1'', message = ''m1''\<rparr>,
                                \<lparr>title = ''e2'', message = ''m2''\<rparr>]\<rparr>"]
  by (simp add: handleCloseDialog_def)

section \<open>The confidence graph\<close>

text \<open>
  Claim C4. Adding a point replaces the sequence by that point alone exactly when the
  sequence is a single point with \<open>x = 0\<close> and the new point has \<open>x = 0\<close>; in every
  other case the point goes to the end. The two sequences of the claim follow.
\<close>

theorem appendPoint_restart_rule:
  "modifyConfidenceGraph s (GraphAdd p)
     = (if (\<exists>q. s = [q] \<and> x q = 0) \<and> x p = 0 then [p] else s @ [p]) \<and>
   modifyConfidenceGraph [\<lparr>x = 0, y = 0\<rparr>] (GraphAdd \<lparr>x = 0, y = 5\<rparr>) = [\<lparr>x = 0, y = 5\<rparr>] \<and>
   modifyConfidenceGraph [\<lparr>x = 0, y = 0\<rparr>, \<lparr>x = 1, y = 10\<rparr>] (GraphAdd \<lparr>x = 0, y = 5\<rparr>)
     = [\<lparr>x = 0, y = 0\<rparr>, \<lparr>x = 1, y = 10\<rparr>, \<lparr>x = 0, y = 5\<rparr>]"
proof -
  have "modifyConfidenceGraph s (GraphAdd p)
          = (if (\<exists>q. s = [q] \<and> x q = 0) \<and> x p = 0 then [p] else s @ [p])"
  proof (cases s)
    case Nil
    then show ?thesis by simp
  next
    case (Cons q rest)
    then show ?thesis by (cases rest) simp_all
  qed
  then show ?thesis by simp
qed

text \<open>
  The rule at a restart, at a new point past epoch 0, at a single point past epoch 0 and
  at the empty sequence.
\<close>

theorem appendPoint_restart_rule_witness:
  "modifyConfidenceGraph [\<lparr>x = 0, y = 7\<rparr>] (GraphAdd \<lparr>x = 0, y = 5\<rparr>) = [\<lparr>x = 0, y = 5\<rparr>] \<and>
   modifyConfidenceGraph [\<lparr>x = 0, y = 7\<rparr>] (GraphAdd \<lparr>x = 3, y = 5\<rparr>)
     = [\<lparr>x = 0, y = 7\<rparr>, \<lparr>x = 3, y = 5\<rparr>] \<and>
   modifyConfidenceGraph [\<lparr>x = 2, y = 7\<rparr>] (GraphAdd \<lparr>x = 0, y = 5\<rparr>)
     = [\<lparr>x = 2, y = 7\<rparr>, \<lparr>x = 0, y = 5\<rparr>] \<and>
   modifyConfidenceGraph [] (GraphAdd \<lparr>x = 0, y = 5\<rparr>) = [\<lparr>x = 0, y = 5\<rparr>]"
  using appendPoint_restart_rule [of "[\<lparr>x = 0, y = 7\<rparr>]" "\<lparr>x = 0, y = 5\<rparr>"]
        appendPoint_restart_rule [of "[\<lparr>x = 0, y = 7\<rparr>]" "\<lparr>x = 3, y = 5\<rparr>"]
        appendPoint_restart_rule [of "[\<lparr>x = 2, y = 7\<rparr>]" "\<lparr>x = 0, y = 5\<rparr>"]
        appendPoint_restart_rule [of "[]" "\<lparr>x = 0, y = 5\<rparr>"]
  by simp

text \<open>
  Claim C7. Whatever the sequence was, \<open>'set'\<close> with a non-empty array makes that array
  the sequence; \<open>'set'\<close> with the empty array and \<open>'clear'\<close> give the origin alone.
\<close>

theorem setSnapshot_and_clear:
  "(v \<noteq> [] \<longrightarrow> modifyConfidenceGraph s (GraphSet v) = v) \<and>
   modifyConfidenceGraph s (GraphSet []) = [\<lparr>x = 0, y = 0\<rparr>] \<and>
   modifyConfidenceGraph s GraphClear = [\<lparr>x = 0, y = 0\<rparr>]"
  by (simp add: origin_def)

text \<open>
  The snapshots of the claim applied to a sequence of two points.
\<close>

theorem setSnapshot_and_clear_witness:
  "[\<lparr>x = 2, y = 30\<rparr>] \<noteq> [] \<and>
   modifyConfidenceGraph [\<lparr>x = 0, y = 0\<rparr>, \<lparr>x = 1, y = 10\<rparr>] (GraphSet [\<lparr>x = 2, y = 30\<rparr>])
     = [\<lparr>x = 2, y = 30\<rparr>] \<and>
   modifyConfidenceGraph [\<lparr>x = 0, y = 0\<rparr>, \<lparr>x = 1, y = 10\<rparr>] (GraphSet []) = [\<lparr>x = 0, y = 0\<rparr>] \<and>
   modifyConfidenceGraph [\<lparr>x = 0, y = 0\<rparr>, \<lparr>x = 1, y = 10\<rparr>] GraphClear = [\<lparr>x = 0, y = 0\<rparr>]"
  using setSnapshot_and_clear
          [of "[\<lparr>x = 2, y = 30\<rparr>]" "[\<lparr>x = 0, y = 0\<rparr>, \<lparr>x = 1, y = 10\<rparr>]"]
  by simp

lemma modifyConfidenceGraph_nonempty: "modifyConfidenceGraph s a \<noteq> []"
  by (cases a) auto

lemma foldl_graph_nonempty: "s \<noteq> [] \<Longrightarrow> foldl modifyConfidenceGraph s actions \<noteq> []"
  by (induction actions arbitrary: s) (simp_all add: modifyConfidenceGraph_nonempty)

lemma array_at_last: "s \<noteq> [] \<Longrightarrow> array_at s (int (length s) - 1) = Some (last s)"
  by (cases s rule: rev_cases) (auto simp: array_at_def nth_append)

text \<open>
  Claim C10. The sequence starts as the origin alone; every action gives a non-empty
  sequence; so every sequence the reducer reaches is non-empty, and the read of its last
  element, which the callback of \<open>latestConfidence\<close> makes, is in range and gives that
  element.
\<close>

theorem confidencePoints_never_empty:
  "confidencePoints_init = [\<lparr>x = 0, y = 0\<rparr>] \<and>
   (s \<noteq> [] \<longrightarrow> modifyConfidenceGraph s a \<noteq> []) \<and>
   run_graph actions \<noteq> [] \<and>
   array_at (run_graph actions) (int (length (run_graph actions)) - 1)
     = Some (last (run_graph actions))"
proof -
  have ne: "run_graph actions \<noteq> []"
    unfolding run_graph_def
    by (rule foldl_graph_nonempty) (simp add: confidencePoints_init_def)
  then show ?thesis
    by (simp add: confidencePoints_init_def origin_def modifyConfidenceGraph_nonempty
        array_at_last)
qed

text \<open>
  A run of four actions, and the read of its last point.
\<close>

theorem confidencePoints_never_empty_witness:
  "[\<lparr>x = 4, y = 2\<rparr>] \<noteq> [] \<and>
   modifyConfidenceGraph [\<lparr>x = 4, y = 2\<rparr>] (GraphSet []) \<noteq> [] \<and>
   run_graph [GraphSet [], GraphAdd \<lparr>x = 0, y = 5\<rparr>, GraphClear, GraphAdd \<lparr>x = 1, y = 1234 / 100\<rparr>]
     = [\<lparr>x = 0, y = 0\<rparr>, \<lparr>x = 1, y = 1234 / 100\<rparr>] \<and>
   array_at
     (run_graph [GraphSet [], GraphAdd \<lparr>x = 0, y = 5\<rparr>, GraphClear, GraphAdd \<lparr>x = 1, y = 1234 / 100\<rparr>])
     1
     = Some \<lparr>x = 1, y = 1234 / 100\<rparr>"
  using confidencePoints_never_empty
          [of "[\<lparr>x = 4, y = 2\<rparr>]" "GraphSet []"
              "[GraphSet [], GraphAdd \<lparr>x = 0, y = 5\<rparr>, GraphClear, GraphAdd \<lparr>x = 1, y = 1234 / 100\<rparr>]"]
  by (simp add: run_graph_def confidencePoints_init_def origin_def)

section \<open>The Preprocess page: readiness and submission\<close>

lemma BatchPeriode_string_empty: "BatchPeriode_string b = [] \<longleftrightarrow> b = None"
  by (cases b rule: BatchPeriode_string.cases) simp_all

text \<open>
  Claim C5. \<open>allowSubmit\<close> is truthy exactly when the page is enabled, neither loading
  nor submitting, a datetime column, a predictable column and a batch period are chosen,
  and the row selection either includes at least one row or excludes a number of rows
  other than the number of rows.
\<close>

theorem allowSubmit_iff:
  "truthy (allowSubmit st) \<longleftrightarrow>
     (\<not> pageDisabled (tabIndex st) \<and> \<not> isLoading st \<and> \<not> isSubmitting st \<and>
      selectedDatetime st \<noteq> [] \<and> selectedPredictable st \<noteq> [] \<and>
      selectedBatchPeriode st \<noteq> None \<and>
      ((sel_type (rowSelection st) = Include \<and> length (ids (rowSelection st)) > 0) \<or>
       (sel_type (rowSelection st) = Exclude \<and>
        length (ids (rowSelection st)) \<noteq> length (rows st))))"
  by (auto simp: allowSubmit_def js_and_def disabled_def BatchPeriode_string_empty)

text \<open>
  The truth table of the specification on a file of five rows, and two states that lack
  a batch period or are disabled.
\<close>

theorem allowSubmit_iff_witness:
  "\<not> truthy (allowSubmit (ready_page Include [] 5)) \<and>
   truthy (allowSubmit (ready_page Include [3] 5)) \<and>
   \<not> truthy (allowSubmit (ready_page Exclude [0, 1, 2, 3, 4] 5)) \<and>
   truthy (allowSubmit (ready_page Exclude [0, 1, 2, 3] 5)) \<and>
   \<not> truthy (allowSubmit ((ready_page Include [3] 5)\<lparr>selectedBatchPeriode := None\<rparr>)) \<and>
   \<not> truthy (allowSubmit ((ready_page Include [3] 5)\<lparr>tabIndex := Some (- 1)\<rparr>))"
  using allowSubmit_iff [of "ready_page Include [] 5"]
        allowSubmit_iff [of "ready_page Include [3] 5"]
        allowSubmit_iff [of "ready_page Exclude [0, 1, 2, 3, 4] 5"]
        allowSubmit_iff [of "ready_page Exclude [0, 1, 2, 3] 5"]
        allowSubmit_iff [of "(ready_page Include [3] 5)\<lparr>selectedBatchPeriode := None\<rparr>"]
        allowSubmit_iff [of "(ready_page Include [3] 5)\<lparr>tabIndex := Some (- 1)\<rparr>"]
  by (simp add: ready_page_def Preprocess_initial_def pageDisabled_def)

text \<open>
  The first line of \<open>handleClickStart\<close> returns when no batch period is selected. The
  handler is the \<open>onClick\<close> of the Start button only (lines 475-485), which is disabled
  unless \<open>allowSubmit\<close> is truthy, and then a batch period is selected: no click reaches
  that return.
\<close>

lemma start_guard_not_reached:
  "selectedBatchPeriode st = None \<Longrightarrow> \<not> truthy (allowSubmit st) \<and> handleClickStart st = (st, [])"
  by (simp add: handleClickStart_def allowSubmit_def js_and_def)

text \<open>
  Claim C6. Whenever the Start button is enabled (\<open>allowSubmit\<close> truthy), a click sets
  the submitting flag and sends exactly \<open>submit_preprocess_config\<close>, with the current
  selections and \<open>tabName\<close> left out for an empty tab. When that call settles, in
  whatever state, the flag is cleared on either outcome, and \<open>start_train\<close> is invoked
  exactly on fulfilment: a rejected submission invokes nothing.
\<close>

theorem start_submit_chain:
  assumes "truthy (allowSubmit st)"
  shows "isSubmitting (fst (handleClickStart st)) \<and>
         (\<exists>b. selectedBatchPeriode st = Some b \<and>
              handleClickStart st =
                (st\<lparr>isSubmitting := True\<rparr>,
                 [Submit_preprocess_config
                    \<lparr>tabName = (if selectedTab st = [] then None else Some (selectedTab st)),
                     datetimeColumn = selectedDatetime st,
                     predictableColumn = selectedPredictable st,
                     batchPeriode = b,
                     config_rowSelection = rowSelection st\<rparr>])) \<and>
         \<not> isSubmitting (fst (submit_settled st2 outcome)) \<and>
         (Start_train \<in> set (snd (submit_settled st2 outcome)) \<longleftrightarrow> outcome = Fulfilled) \<and>
         snd (submit_settled st2 Fulfilled) = [Start_train] \<and>
         snd (submit_settled st2 Rejected) = []"
proof -
  from assms have "selectedBatchPeriode st \<noteq> None"
    using start_guard_not_reached [of st] by blast
  then obtain b where "selectedBatchPeriode st = Some b" by blast
  then show ?thesis
    by (cases outcome) (simp_all add: handleClickStart_def submit_settled_def)
qed

text \<open>
  A ready page submits its configuration without a tab name; a rejected submission
  clears the flag and invokes nothing, a fulfilled one clears the flag and invokes
  \<open>start_train\<close>.
\<close>

theorem start_submit_chain_witness:
  "truthy (allowSubmit (ready_page Include [3] 5)) \<and>
   handleClickStart (ready_page Include [3] 5) =
     ((ready_page Include [3] 5)\<lparr>isSubmitting := True\<rparr>,
      [Submit_preprocess_config
         \<lparr>tabName = None, datetimeColumn = ''date'', predictableColumn = ''price'',
          batchPeriode = Daily, config_rowSelection = \<lparr>sel_type = Include, ids = [3]\<rparr>\<rparr>]) \<and>
   submit_settled ((ready_page Include [3] 5)\<lparr>isSubmitting := True\<rparr>) Rejected
     = (ready_page Include [3] 5, []) \<and>
   submit_settled ((ready_page Include [3] 5)\<lparr>isSubmitting := True\<rparr>) Fulfilled
     = (ready_page Include [3] 5, [Start_train])"
proof -
  have ready: "truthy (allowSubmit (ready_page Include [3] 5))"
    by (simp add: ready_page_def Preprocess_initial_def pageDisabled_def allowSubmit_def
        js_and_def disabled_def)
  show ?thesis
    using start_submit_chain
            [OF ready, of "(ready_page Include [3] 5)\<lparr>isSubmitting := True\<rparr>" Rejected] ready
    by (simp add: ready_page_def Preprocess_initial_def submit_settled_def)
qed

section \<open>The Evaluate page: progress events\<close>

text \<open>
  Rounding to binary64 moves a number by at most half the spacing of its binade: by
  \<open>2^-53\<close> of its magnitude, or by \<open>2^-1075\<close> among the subnormal numbers.
\<close>

lemma round_half_even_near: "\<bar>of_int (round_half_even v) - v\<bar> \<le> 1 / 2"
proof -
  have "of_int \<lfloor>v\<rfloor> \<le> v" "v < of_int \<lfloor>v\<rfloor> + 1" by linarith+
  then show ?thesis
    by (auto simp: round_half_even_def Let_def)
qed

lemma exponent_up_le: "2 powi e \<le> a \<Longrightarrow> 2 powi (exponent_up n e a) \<le> a"
  by (induction n arbitrary: e) auto

lemma exponent_down_le:
  "2 powi (exponent_down n e a) \<le> a \<or> exponent_down n e a = e - int n"
proof (induction n arbitrary: e)
  case 0
  then show ?case by simp
next
  case (Suc n)
  from Suc [of "e - 1"] show ?case by auto
qed

lemma binary64_exponent_cases:
  "2 powi (binary64_exponent a) \<le> a \<or> binary64_exponent a = - 1022"
proof (cases "1 \<le> a")
  case True
  then have "2 powi (exponent_up 1023 0 a) \<le> a"
    by (intro exponent_up_le) simp
  with True show ?thesis by (simp add: binary64_exponent_def)
next
  case False
  with exponent_down_le [of 1021 "- 1" a] show ?thesis
    by (simp add: binary64_exponent_def)
qed

lemma fl_error: "\<bar>fl v - v\<bar> \<le> 2 powi (binary64_exponent \<bar>v\<bar> - 53)"
proof -
  define q :: real where "q = 2 powi (binary64_exponent \<bar>v\<bar> - 52)"
  have q: "0 < q" by (simp add: q_def)
  have half: "q / 2 = 2 powi (binary64_exponent \<bar>v\<bar> - 53)"
    by (simp add: q_def power_int_diff)
  have "fl v - v = (of_int (round_half_even (v / q)) - v / q) * q"
    using q by (simp add: fl_def q_def [symmetric] algebra_simps)
  then have "\<bar>fl v - v\<bar> = \<bar>of_int (round_half_even (v / q)) - v / q\<bar> * q"
    using q by (simp add: abs_mult)
  also have "\<dots> \<le> 1 / 2 * q"
    using round_half_even_near [of "v / q"] q by (intro mult_right_mono) simp_all
  finally show ?thesis using half by simp
qed

lemma fl_near: "\<bar>fl v - v\<bar> \<le> \<bar>v\<bar> / 2 ^ 53 + 1 / 2 ^ 1075"
proof -
  from binary64_exponent_cases [of "\<bar>v\<bar>"]
  have "2 powi (binary64_exponent \<bar>v\<bar> - 53) \<le> \<bar>v\<bar> / 2 ^ 53 + 1 / 2 ^ 1075"
  proof
    assume "2 powi binary64_exponent \<bar>v\<bar> \<le> \<bar>v\<bar>"
    then have "2 powi (binary64_exponent \<bar>v\<bar> - 53) \<le> \<bar>v\<bar> / 2 ^ 53"
      by (simp add: power_int_diff divide_right_mono)
    then show ?thesis by (simp add: add_increasing2)
  next
    assume "binary64_exponent \<bar>v\<bar> = - 1022"
    then have "2 powi (binary64_exponent \<bar>v\<bar> - 53) = (1 / 2 ^ 1075 :: real)"
      by (simp add: power_int_minus_left divide_simps)
    then show ?thesis by simp
  qed
  with fl_error [of v] show ?thesis by linarith
qed

lemma round_hundredths_bounds:
  assumes "0 \<le> p" and "p \<le> 1"
  shows "0 \<le> \<lfloor>fl (p * 100) + 1 / 2\<rfloor> \<and> \<lfloor>fl (p * 100) + 1 / 2\<rfloor> \<le> 100 \<and>
         \<bar>round_hundredths p - p\<bar> \<le> 1 / 200 + 1 / 2 ^ 50"
proof -
  define a where "a = fl (p * 100)"
  define n where "n = \<lfloor>a + 1 / 2\<rfloor>"
  have small: "(1 / 2 ^ 1075 :: real) \<le> 1 / 2 ^ 53"
    by (intro divide_left_mono power_increasing) simp_all
  have "\<bar>a - p * 100\<bar> \<le> \<bar>p * 100\<bar> / 2 ^ 53 + 1 / 2 ^ 1075"
    unfolding a_def by (rule fl_near)
  also have "\<dots> \<le> 100 / 2 ^ 53 + 1 / 2 ^ 53"
    using assms small by (intro add_mono divide_right_mono) simp_all
  finally have a: "\<bar>a - p * 100\<bar> \<le> 101 / 2 ^ 53" by simp
  have n1: "of_int n \<le> a + 1 / 2" and n2: "a + 1 / 2 < of_int n + 1"
    unfolding n_def by linarith+
  have tiny: "(101 / 2 ^ 53 :: real) < 1 / 4" by simp
  from a tiny have "\<bar>a - p * 100\<bar> < 1 / 4" by linarith
  with assms have "- 1 / 4 < a" "a < 100 + 1 / 4" by linarith+
  with n1 n2 have "- 1 < (of_int n :: real)" "(of_int n :: real) < 101" by linarith+
  then have n0: "0 \<le> n" and n100: "n \<le> 100" by linarith+
  have "\<bar>fl (of_int n / 100) - of_int n / 100\<bar> \<le> \<bar>of_int n / 100\<bar> / 2 ^ 53 + 1 / 2 ^ 1075"
    by (rule fl_near)
  also have "\<dots> \<le> 1 / 2 ^ 53 + 1 / 2 ^ 53"
    using n0 n100 small by (intro add_mono divide_right_mono) simp_all
  finally have s: "\<bar>fl (of_int n / 100) - of_int n / 100\<bar> \<le> 2 / 2 ^ 53" by simp
  have r: "round_hundredths p = fl (of_int n / 100)"
    by (simp add: round_hundredths_def Math_round_def n_def a_def)
  have "\<bar>of_int n - a\<bar> \<le> (1 / 2 :: real)" using n1 n2 by linarith
  with a have "\<bar>of_int n - p * 100\<bar> \<le> 1 / 2 + (101 / 2 ^ 53 :: real)" by linarith
  then have "\<bar>of_int n / 100 - p\<bar> \<le> 1 / 200 + 101 / 2 ^ 53 / 100"
    by (simp add: abs_le_iff field_simps)
  then have m: "\<bar>of_int n / 100 - p\<bar> \<le> 1 / 200 + 1 / 2 ^ 51"
    by (rule order_trans) simp
  have "\<bar>round_hundredths p - p\<bar>
          \<le> \<bar>fl (of_int n / 100) - of_int n / 100\<bar> + \<bar>of_int n / 100 - p\<bar>"
    unfolding r by linarith
  also have "\<dots> \<le> 2 / 2 ^ 53 + (1 / 200 + 1 / 2 ^ 51)"
    using s m by (rule add_mono)
  also have "\<dots> \<le> 1 / 200 + 1 / 2 ^ 50" by simp
  finally have "\<bar>round_hundredths p - p\<bar> \<le> 1 / 200 + 1 / 2 ^ 50" .
  with n0 n100 show ?thesis by (simp add: n_def a_def)
qed

text \<open>
  The expression at values where every step is exact, and at the two binary64 values
  nearest to \<open>0.015\<close> and \<open>0.145\<close>, where the product with 100 is rounded to \<open>1.5\<close> and
  to a value below \<open>14.5\<close>: the results are the binary64 values of \<open>0.02\<close> and \<open>0.14\<close>.
\<close>

lemma round_hundredths_exact:
  "round_hundredths (1 / 2) = 1 / 2"
  "round_hundredths (769 / 1024) = 3 / 4"
  "round_hundredths 87 = 87"
  by (simp_all add: round_hundredths_def Math_round_def fl_def binary64_exponent_def
      eval_nat_numeral round_half_even_def Let_def)

lemma round_hundredths_ties:
  "fl (fl (15 / 1000) * 100) = 3 / 2"
  "round_hundredths (fl (15 / 1000)) = fl (2 / 100)"
  "round_hundredths (fl (145 / 1000)) = fl (14 / 100)"
  by (simp_all add: round_hundredths_def Math_round_def fl_def binary64_exponent_def
      eval_nat_numeral round_half_even_def Let_def)

lemma evaluate_effect_inv: "listeners st = [] \<Longrightarrow> evaluate_inv (evaluate_effect st)"
  by (simp add: evaluate_inv_def evaluate_effect_def Let_def)

lemma evaluate_run_cleanup_listeners:
  "evaluate_inv st \<Longrightarrow> listeners (evaluate_run_cleanup (st\<lparr>evaluate_tabIndex := t\<rparr>)) = []"
  by (auto simp: evaluate_inv_def evaluate_run_cleanup_def split: option.splits if_splits)

lemma progress_step:
  "evaluate_inv st \<Longrightarrow>
   evaluate_step st (Progress p) =
     (if pageDisabled (evaluate_tabIndex st) then st else progress_handler st p)"
  by (auto simp: evaluate_inv_def split: option.splits if_splits)

lemma evaluate_inv_progress_handler: "evaluate_inv (progress_handler st p) = evaluate_inv st"
  by (simp add: evaluate_inv_def progress_handler_def)

lemma evaluate_step_inv: "evaluate_inv st \<Longrightarrow> evaluate_inv (evaluate_step st e)"
proof (cases e)
  case (EvaluateRender t)
  assume inv: "evaluate_inv st"
  show ?thesis
  proof (cases "pageDisabled t = pageDisabled (evaluate_tabIndex st)")
    case True
    with inv EvaluateRender show ?thesis
      by (auto simp: evaluate_render_def evaluate_inv_def split: option.splits)
  next
    case False
    with EvaluateRender evaluate_effect_inv [OF evaluate_run_cleanup_listeners [OF inv, of t]]
    show ?thesis by (simp add: evaluate_render_def)
  qed
next
  case (Progress p)
  assume inv: "evaluate_inv st"
  have eq: "evaluate_step st e =
      (if pageDisabled (evaluate_tabIndex st) then st else progress_handler st p)"
    unfolding Progress by (rule progress_step [OF inv])
  show ?thesis unfolding eq using inv by (simp add: evaluate_inv_progress_handler)
next
  case (EvaluationResolved k v)
  assume "evaluate_inv st"
  with EvaluationResolved show ?thesis
    by (simp add: evaluate_inv_def evaluation_resolved_def)
qed

lemma foldl_evaluate_inv: "evaluate_inv st \<Longrightarrow> evaluate_inv (foldl evaluate_step st events)"
  by (induction events arbitrary: st) (simp_all add: evaluate_step_inv)

lemma run_evaluate_inv: "evaluate_inv (run_evaluate (Evaluate_mount t) events)"
  unfolding run_evaluate_def Evaluate_mount_def
  by (rule foldl_evaluate_inv, rule evaluate_effect_inv) (simp add: Evaluate_initial_def)

text \<open>
  Claim C8, as stated, fails at the payload \<open>1/2\<close> on the page just activated: the
  page stores and shows \<open>0.5\<close>, where the percentage rounded to two places is \<open>50\<close>.
\<close>

theorem progress_display_counterexample:
  "predictProgress (evaluate_step (Evaluate_mount None) (Progress (1 / 2))) = 1 / 2 \<and>
   evaluate_view (evaluate_step (Evaluate_mount None) (Progress (1 / 2)))
     = PredictingView (Some (1 / 2)) \<and>
   percentage_two_decimals (1 / 2) = 50 \<and>
   predictProgress (evaluate_step (Evaluate_mount None) (Progress (1 / 2)))
     \<noteq> percentage_two_decimals (1 / 2)"
  by (simp add: Evaluate_mount_def Evaluate_initial_def evaluate_effect_def pageDisabled_def
      progress_handler_def round_hundredths_exact Math_round_def evaluate_view_def
      percentage_two_decimals_def)

text \<open>
  Claim C8, amended. On every state the page reaches in which it is enabled, a progress
  event with a payload \<open>p\<close> between 0 and 1 stores \<open>Math.round(p * 100) / 100\<close> as
  binary64 arithmetic gives it: the binary64 value nearest to \<open>n / 100\<close>, where \<open>n\<close> is
  the product \<open>p * 100\<close>, rounded to binary64, rounded to an integer; \<open>n\<close> lies between
  0 and 100. The stored value is within \<open>1/200\<close> of \<open>p\<close>, up to binary64 rounding (less
  than \<open>2^-50\<close>): it is \<open>p\<close> to two decimal places, not \<open>p\<close> scaled by 100. While no
  report is held the heading shows the stored value before the percent sign, or an
  ellipsis when it is zero.
\<close>

theorem progress_display_rounds_payload:
  assumes "st = run_evaluate (Evaluate_mount t) events"
    and "\<not> pageDisabled (evaluate_tabIndex st)"
    and "0 \<le> p" and "p \<le> 1"
  shows "predictProgress (evaluate_step st (Progress p))
           = fl (of_int \<lfloor>fl (p * 100) + 1 / 2\<rfloor> / 100) \<and>
         0 \<le> \<lfloor>fl (p * 100) + 1 / 2\<rfloor> \<and> \<lfloor>fl (p * 100) + 1 / 2\<rfloor> \<le> 100 \<and>
         \<bar>predictProgress (evaluate_step st (Progress p)) - p\<bar> \<le> 1 / 200 + 1 / 2 ^ 50 \<and>
         (report st = None \<longrightarrow>
            evaluate_view (evaluate_step st (Progress p)) =
              PredictingView
                (if predictProgress (evaluate_step st (Progress p)) = 0 then None
                 else Some (predictProgress (evaluate_step st (Progress p)))))"
proof -
  have "evaluate_inv st" using assms(1) run_evaluate_inv by simp
  from progress_step [OF this, of p] assms(2)
  have eq: "evaluate_step st (Progress p) = progress_handler st p"
    by simp
  have stored: "predictProgress (progress_handler st p) = round_hundredths p"
    by (simp add: progress_handler_def)
  have expr: "round_hundredths p = fl (of_int \<lfloor>fl (p * 100) + 1 / 2\<rfloor> / 100)"
    by (simp add: round_hundredths_def Math_round_def)
  have view: "report st = None \<longrightarrow>
      evaluate_view (progress_handler st p) =
        PredictingView (if round_hundredths p = 0 then None else Some (round_hundredths p))"
    by (simp add: evaluate_view_def progress_handler_def)
  from round_hundredths_bounds [OF assms(3,4)] view show ?thesis
    unfolding eq stored expr by simp
qed

text \<open>
  The payload \<open>769/1024\<close>, about \<open>0.751\<close>, on an active page is stored and shown as
  \<open>0.75\<close>.
\<close>

theorem progress_display_rounds_payload_witness:
  "\<not> pageDisabled (evaluate_tabIndex (run_evaluate (Evaluate_mount None) [Progress (1 / 2)])) \<and>
   (0 :: real) \<le> 769 / 1024 \<and> (769 / 1024 :: real) \<le> 1 \<and>
   predictProgress
     (evaluate_step (run_evaluate (Evaluate_mount None) [Progress (1 / 2)]) (Progress (769 / 1024)))
     = 3 / 4 \<and>
   evaluate_view
     (evaluate_step (run_evaluate (Evaluate_mount None) [Progress (1 / 2)]) (Progress (769 / 1024)))
     = PredictingView (Some (3 / 4))"
proof -
  have active:
    "\<not> pageDisabled (evaluate_tabIndex (run_evaluate (Evaluate_mount None) [Progress (1 / 2)]))"
    by (simp add: run_evaluate_def Evaluate_mount_def Evaluate_initial_def evaluate_effect_def
        pageDisabled_def progress_handler_def)
  have loading: "report (run_evaluate (Evaluate_mount None) [Progress (1 / 2)]) = None"
    by (simp add: run_evaluate_def Evaluate_mount_def Evaluate_initial_def evaluate_effect_def
        pageDisabled_def progress_handler_def)
  have range: "(0 :: real) \<le> 769 / 1024" "(769 / 1024 :: real) \<le> 1" by simp_all
  have r: "fl (of_int \<lfloor>fl (769 / 1024 * 100) + 1 / 2\<rfloor> / 100) = 3 / 4"
    using round_hundredths_exact(2) by (simp add: round_hundredths_def Math_round_def)
  from progress_display_rounds_payload [OF refl active range]
  have "predictProgress
          (evaluate_step (run_evaluate (Evaluate_mount None) [Progress (1 / 2)])
             (Progress (769 / 1024))) = 3 / 4"
    and "evaluate_view
          (evaluate_step (run_evaluate (Evaluate_mount None) [Progress (1 / 2)])
             (Progress (769 / 1024))) = PredictingView (Some (3 / 4))"
    unfolding r using loading by simp_all
  with active show ?thesis by simp
qed

text \<open>
  Claim C9, as stated, fails: after the report has arrived the listener is still
  registered, and a progress event with payload \<open>1/2\<close> changes the stored progress
  from \<open>0\<close> to \<open>0.5\<close>.
\<close>

theorem progress_after_report_counterexample:
  "report (run_evaluate (Evaluate_mount None) [EvaluationResolved 0 example_report])
     = Some example_report \<and>
   listeners (run_evaluate (Evaluate_mount None) [EvaluationResolved 0 example_report]) = [0] \<and>
   predictProgress (run_evaluate (Evaluate_mount None) [EvaluationResolved 0 example_report]) = 0 \<and>
   predictProgress
     (run_evaluate (Evaluate_mount None) [EvaluationResolved 0 example_report, Progress (1 / 2)])
     = 1 / 2"
  by (simp add: run_evaluate_def Evaluate_mount_def Evaluate_initial_def evaluate_effect_def
      pageDisabled_def evaluation_resolved_def progress_handler_def round_hundredths_exact)

text \<open>
  Claim C9, amended. On every state the page reaches: while it is enabled the progress
  listener is registered, the arrival of the report does not remove it, and a progress
  event still overwrites the stored progress, whether or not a report is held; once a
  report is held the rendered view does not change with it. While the page is disabled no
  listener is registered and a progress event changes nothing.
\<close>

theorem progress_subscription_lifetime:
  assumes "st = run_evaluate (Evaluate_mount t) events"
  shows "(\<not> pageDisabled (evaluate_tabIndex st) \<longrightarrow>
            listeners st \<noteq> [] \<and>
            listeners (evaluate_step st (EvaluationResolved k r)) = listeners st \<and>
            predictProgress (evaluate_step st (Progress p)) = round_hundredths p \<and>
            (report st \<noteq> None \<longrightarrow>
               evaluate_view (evaluate_step st (Progress p)) = evaluate_view st)) \<and>
         (pageDisabled (evaluate_tabIndex st) \<longrightarrow>
            listeners st = [] \<and> evaluate_step st (Progress p) = st)"
proof -
  have inv: "evaluate_inv st" using assms run_evaluate_inv by simp
  have kept: "listeners (evaluate_step st (EvaluationResolved k r)) = listeners st"
    by (simp add: evaluation_resolved_def)
  show ?thesis
  proof (cases "pageDisabled (evaluate_tabIndex st)")
    case True
    with inv have "listeners st = []"
      by (auto simp: evaluate_inv_def)
    with True show ?thesis by simp
  next
    case False
    with inv have ne: "listeners st \<noteq> []"
      by (auto simp: evaluate_inv_def)
    from progress_step [OF inv, of p] False
    have eq: "evaluate_step st (Progress p) = progress_handler st p" by simp
    have view: "report st \<noteq> None \<longrightarrow> evaluate_view (progress_handler st p) = evaluate_view st"
      using False by (auto simp: evaluate_view_def progress_handler_def)
    show ?thesis
      unfolding eq using False ne kept view by (simp add: progress_handler_def)
  qed
qed

text \<open>
  After the report: a progress event is stored and the Ready view stays; after the
  deactivation that follows, a progress event leaves the state as it is.
\<close>

theorem progress_subscription_lifetime_witness:
  "\<not> pageDisabled (evaluate_tabIndex
       (run_evaluate (Evaluate_mount None) [EvaluationResolved 0 example_report])) \<and>
   report (run_evaluate (Evaluate_mount None) [EvaluationResolved 0 example_report]) \<noteq> None \<and>
   predictProgress (evaluate_step
       (run_evaluate (Evaluate_mount None) [EvaluationResolved 0 example_report])
       (Progress (1 / 2))) = 1 / 2 \<and>
   evaluate_view (evaluate_step
       (run_evaluate (Evaluate_mount None) [EvaluationResolved 0 example_report])
       (Progress (1 / 2))) = ReadyView 87 None None False \<and>
   pageDisabled (evaluate_tabIndex
       (run_evaluate (Evaluate_mount None)
          [EvaluationResolved 0 example_report, EvaluateRender (Some (- 1))])) \<and>
   evaluate_step
       (run_evaluate (Evaluate_mount None)
          [EvaluationResolved 0 example_report, EvaluateRender (Some (- 1))])
       (Progress (1 / 2))
     = run_evaluate (Evaluate_mount None)
          [EvaluationResolved 0 example_report, EvaluateRender (Some (- 1))]"
proof -
  have a: "\<not> pageDisabled (evaluate_tabIndex
       (run_evaluate (Evaluate_mount None) [EvaluationResolved 0 example_report]))"
    and b: "report (run_evaluate (Evaluate_mount None) [EvaluationResolved 0 example_report])
       = Some example_report"
    and c: "isSaving (run_evaluate (Evaluate_mount None) [EvaluationResolved 0 example_report])
       = False"
    by (simp_all add: run_evaluate_def Evaluate_mount_def Evaluate_initial_def
        evaluate_effect_def pageDisabled_def evaluation_resolved_def)
  have d: "pageDisabled (evaluate_tabIndex
       (run_evaluate (Evaluate_mount None)
          [EvaluationResolved 0 example_report, EvaluateRender (Some (- 1))]))"
    by (simp add: run_evaluate_def Evaluate_mount_def Evaluate_initial_def
        evaluate_effect_def evaluate_render_def evaluate_run_cleanup_def pageDisabled_def
        evaluation_resolved_def)
  note r = round_hundredths_exact(1,3)
  show ?thesis
    using progress_subscription_lifetime
            [OF refl, of None "[EvaluationResolved 0 example_report]" 0 example_report "1 / 2"]
          progress_subscription_lifetime
            [OF refl, of None
               "[EvaluationResolved 0 example_report, EvaluateRender (Some (- 1))]"
               0 example_report "1 / 2"]
          a b c d r
    by (simp add: evaluate_view_def example_report_def)
qed

section \<open>The Preprocess page: responses after a deactivation\<close>

text \<open>
  The cleanup of the activation effect always names a variable that exists, and a
  variable that has been set stays set.
\<close>

lemma step_cleanup_in_range:
  assumes "\<And>k. effect_cleanup st = Some k \<Longrightarrow> k < length (canceled st)"
    and "effect_cleanup (step st e) = Some j"
  shows "j < length (canceled (step st e))"
proof (cases e)
  case (Render t)
  with assms show ?thesis
    by (auto simp: render_def activation_effect_def run_cleanup_def Let_def
        split: if_splits option.splits)
next
  case (TimeoutFired k)
  with assms show ?thesis by (auto simp: timeout_fired_def split: if_splits)
next
  case (DataInfoResolved k v)
  with assms show ?thesis
    by (auto simp: data_info_resolved_def changeSheetInfo_def split: if_splits)
next
  case (SelectTab v)
  with assms show ?thesis
    by (auto simp: handleSelectTab_def Let_def less_Suc_eq split: if_splits)
next
  case (SelectSheetResolved k t info)
  with assms show ?thesis
    by (auto simp: select_sheet_resolved_def changeSheetInfo_def split: if_splits)
qed

lemma update_keeps_true: "k < length xs \<Longrightarrow> xs ! k \<Longrightarrow> (xs[j := True]) ! k"
  by (cases "j = k") simp_all

lemma step_keeps_canceled:
  assumes "k < length (canceled st)" and "canceled st ! k"
  shows "k < length (canceled (step st e)) \<and> canceled (step st e) ! k"
proof (cases e)
  case (Render t)
  with assms show ?thesis
    by (auto simp: render_def activation_effect_def run_cleanup_def Let_def nth_append
        update_keeps_true split: if_splits option.splits)
next
  case (TimeoutFired j)
  with assms show ?thesis by (auto simp: timeout_fired_def split: if_splits)
next
  case (DataInfoResolved j v)
  with assms show ?thesis
    by (auto simp: data_info_resolved_def changeSheetInfo_def split: if_splits)
next
  case (SelectTab v)
  with assms show ?thesis
    by (auto simp: handleSelectTab_def Let_def nth_append split: if_splits)
next
  case (SelectSheetResolved j t info)
  with assms show ?thesis
    by (auto simp: select_sheet_resolved_def changeSheetInfo_def split: if_splits)
qed

lemma run_cleanup_in_range:
  "effect_cleanup (foldl step st events) = Some j \<Longrightarrow>
   (\<And>k. effect_cleanup st = Some k \<Longrightarrow> k < length (canceled st)) \<Longrightarrow>
   j < length (canceled (foldl step st events))"
proof (induction events arbitrary: st j)
  case Nil
  then show ?case by simp
next
  case (Cons e events)
  from Cons.prems(1) have "effect_cleanup (foldl step (step st e) events) = Some j"
    by simp
  then have "j < length (canceled (foldl step (step st e) events))"
  proof (rule Cons.IH)
    fix k
    assume "effect_cleanup (step st e) = Some k"
    with Cons.prems(2) show "k < length (canceled (step st e))"
      by (rule step_cleanup_in_range)
  qed
  then show ?case by simp
qed

lemma run_keeps_canceled:
  "k < length (canceled st) \<Longrightarrow> canceled st ! k \<Longrightarrow>
   k < length (canceled (foldl step st events)) \<and> canceled (foldl step st events) ! k"
  by (induction events arbitrary: st) (simp_all add: step_keeps_canceled)

text \<open>
  The activation effect's own request: a deactivation sets the variable of the running
  activation, so the response to its \<open>get_data_info\<close>, whenever it comes and whatever
  happened in between, only leaves the list of requests in flight.
\<close>

lemma deactivation_cancels:
  assumes "effect_cleanup st = Some k" and "k < length (canceled st)"
    and "\<not> pageDisabled (tabIndex st)" and "pageDisabled t"
  shows "k < length (canceled (render st t)) \<and> canceled (render st t) ! k"
  using assms by (simp add: render_def run_cleanup_def activation_effect_def)

lemma canceled_data_info_discarded:
  "canceled st ! k \<Longrightarrow>
   step st (DataInfoResolved k v) = st\<lparr>pending := remove1 (Get_data_info k) (pending st)\<rparr>"
  by (simp add: data_info_resolved_def remove1_idem)

lemma data_info_discarded_after_deactivation:
  assumes "st = run_preprocess (Preprocess_mount t0) before"
    and "\<not> pageDisabled (tabIndex st)"
    and "effect_cleanup st = Some k"
    and "pageDisabled t"
    and "st2 = run_preprocess (render st t) after"
  shows "step st2 (DataInfoResolved k v) = st2\<lparr>pending := remove1 (Get_data_info k) (pending st2)\<rparr>"
proof -
  have "k < length (canceled st)"
    using assms(3) unfolding assms(1) run_preprocess_def
    by (rule run_cleanup_in_range)
       (auto simp: Preprocess_mount_def activation_effect_def Preprocess_initial_def Let_def
          split: if_splits)
  from deactivation_cancels [OF assms(3) this assms(2) assms(4)]
  have "k < length (canceled (render st t)) \<and> canceled (render st t) ! k" .
  then have "canceled st2 ! k"
    unfolding assms(5) run_preprocess_def using run_keeps_canceled by blast
  then show ?thesis by (rule canceled_data_info_discarded)
qed

text \<open>
  The request of \<open>handleSelectTab\<close>: its variable is never the one of an effect cleanup,
  so nothing that happens to the page sets it, and the response to \<open>select_sheet\<close> is
  applied whenever it comes.
\<close>

lemma step_keeps_uncanceled:
  assumes "k < length (canceled st)" and "\<not> canceled st ! k" and "effect_cleanup st \<noteq> Some k"
  shows "k < length (canceled (step st e)) \<and> \<not> canceled (step st e) ! k \<and>
         effect_cleanup (step st e) \<noteq> Some k"
proof (cases e)
  case (Render t)
  with assms show ?thesis
    by (auto simp: render_def activation_effect_def run_cleanup_def Let_def nth_append
        split: if_splits option.splits)
next
  case (TimeoutFired j)
  with assms show ?thesis by (auto simp: timeout_fired_def split: if_splits)
next
  case (DataInfoResolved j v)
  with assms show ?thesis
    by (auto simp: data_info_resolved_def changeSheetInfo_def split: if_splits)
next
  case (SelectTab v)
  with assms show ?thesis
    by (auto simp: handleSelectTab_def Let_def nth_append split: if_splits)
next
  case (SelectSheetResolved j t info)
  with assms show ?thesis
    by (auto simp: select_sheet_resolved_def changeSheetInfo_def split: if_splits)
qed

lemma run_keeps_uncanceled:
  "k < length (canceled st) \<Longrightarrow> \<not> canceled st ! k \<Longrightarrow> effect_cleanup st \<noteq> Some k \<Longrightarrow>
   \<not> canceled (foldl step st events) ! k"
proof (induction events arbitrary: st)
  case Nil
  then show ?case by simp
next
  case (Cons e events)
  from step_keeps_uncanceled [OF Cons.prems, of e] Cons.IH [of "step st e"]
  show ?case by simp
qed

lemma select_sheet_never_discarded:
  assumes "st = run_preprocess (Preprocess_mount t0) before"
    and "handleSelectTab st v = (st1, Some k)"
    and "st2 = run_preprocess st1 after"
    and "Select_sheet k v \<in> set (pending st2)"
  shows "columns (step st2 (SelectSheetResolved k v info)) = sheet_columns info \<and>
         \<not> isLoading (step st2 (SelectSheetResolved k v info))"
proof -
  from assms(2) have k: "k = length (canceled st)"
    and st1: "canceled st1 = canceled st @ [False]" "effect_cleanup st1 = effect_cleanup st"
    by (auto simp: handleSelectTab_def Let_def split: if_splits)
  have "effect_cleanup st \<noteq> Some k"
  proof
    assume "effect_cleanup st = Some k"
    then have "k < length (canceled st)"
      unfolding assms(1) run_preprocess_def
      by (rule run_cleanup_in_range)
         (auto simp: Preprocess_mount_def activation_effect_def Preprocess_initial_def Let_def
            split: if_splits)
    with k show False by simp
  qed
  with k st1 have "\<not> canceled (foldl step st1 after) ! k"
    by (intro run_keeps_uncanceled) simp_all
  with assms(3,4) show ?thesis
    by (simp add: run_preprocess_def select_sheet_resolved_def changeSheetInfo_def)
qed

text \<open>
  Had the function returned by \<open>handleSelectTab\<close> been called, the response would have
  been dropped.
\<close>

lemma selectTab_cleanup_discards:
  "k < length (canceled st) \<Longrightarrow>
   select_sheet_resolved (selectTab_cleanup st k) k info = selectTab_cleanup st k"
  by (simp add: select_sheet_resolved_def selectTab_cleanup_def)

text \<open>
  Claim C1 says that the response to a request started while the page was active is
  dropped once the page has been deactivated. For \<open>select_sheet\<close> the code does
  otherwise. The file \<open>old.xlsx\<close> is loaded and the tab \<open>B\<close> selected; the page is
  deactivated while \<open>select_sheet\<close> is in flight, which clears the columns. A response
  arriving now fills them again. If instead the page is reactivated and has loaded
  \<open>new.xlsx\<close> before the response arrives, the page ends with the name and tabs of the
  new file and the tab, columns, rows and selections of the old sheet.
\<close>

theorem select_sheet_stale_response_applied:
  "columns (run_preprocess (Preprocess_mount None)
      [TimeoutFired 0, DataInfoResolved 0 (example_info ''old.xlsx'' ''A'' ''a_old''),
       SelectTab ''B'', Render (Some (- 1))]) = [] \<and>
   columns (run_preprocess (Preprocess_mount None)
      [TimeoutFired 0, DataInfoResolved 0 (example_info ''old.xlsx'' ''A'' ''a_old''),
       SelectTab ''B'', Render (Some (- 1)),
       SelectSheetResolved 1 ''B'' (example_sheet ''B'' ''b_old'')])
     = [\<lparr>field = ''b_old'', headerName = ''b_old'', col_type = TNumber\<rparr>] \<and>
   run_preprocess (Preprocess_mount None)
      [TimeoutFired 0, DataInfoResolved 0 (example_info ''old.xlsx'' ''A'' ''a_old''),
       SelectTab ''B'', Render (Some (- 1)), Render None, TimeoutFired 2,
       DataInfoResolved 2 (example_info ''new.xlsx'' ''A'' ''a_new''),
       SelectSheetResolved 1 ''B'' (example_sheet ''B'' ''b_old'')]
     = \<lparr>tabIndex = None, isLoading = False, isSubmitting = False,
        name = ''new.xlsx'', tabs = [''A'', ''B''],
        columns = [\<lparr>field = ''b_old'', headerName = ''b_old'', col_type = TNumber\<rparr>],
        rows = [[(''b_old'', CellNumber 1)]], allowedBatchPeriodes = [Daily],
        selectedTab = ''B'', selectedDatetime = [],
        selectedPredictable = ''b_old'', selectedBatchPeriode = Some Daily,
        rowSelection = \<lparr>sel_type = Exclude, ids = []\<rparr>,
        canceled = [True, False, False], effect_cleanup = Some 2, pending = []\<rparr>"
  by (simp add: run_preprocess_def Preprocess_mount_def Preprocess_initial_def
      activation_effect_def run_cleanup_def render_def pageDisabled_def timeout_fired_def
      data_info_resolved_def changeSheetInfo_def handleSelectTab_def disabled_def
      select_sheet_resolved_def example_info_def example_sheet_def convert_row_def
      datetimeFields_def Let_def)

end
